theory Spec2Isabelle
  imports Complex_Main
begin

section \<open>Numbers of the host language\<close>

text \<open>
  Every score of \<^verbatim>\<open>lib/estimation.js\<close> is a JavaScript number. The model keeps the
  special values that the arithmetic of the program can reach (a division by a zero
  count gives an infinity, never an exception) and computes finite values exactly, on
  the reals; the two zeros are identified (every zero of the program is a sum or a
  product of non-negative counts). The program holds the nearest double of each exact
  result, so an exact value strictly inside an interval can come out on its endpoint
  (\<open>1 - 1 / 2 ^ 54\<close> is \<open>1.0\<close> as a double): bounds that are meant for the program's
  own numbers are stated closed, and the section on rounding below repeats the three
  formulas with an explicit rounding function.
\<close>

datatype number = Finite real | PosInfinity | NegInfinity | NaN

fun num_div :: "number \<Rightarrow> number \<Rightarrow> number" where
  "num_div (Finite a) (Finite b) =
     (if b = 0 then (if a = 0 then NaN else if 0 < a then PosInfinity else NegInfinity)
      else Finite (a / b))"
| "num_div (Finite a) PosInfinity = Finite 0"
| "num_div (Finite a) NegInfinity = Finite 0"
| "num_div PosInfinity (Finite b) = (if 0 \<le> b then PosInfinity else NegInfinity)"
| "num_div NegInfinity (Finite b) = (if 0 \<le> b then NegInfinity else PosInfinity)"
| "num_div _ _ = NaN"

fun num_sub :: "number \<Rightarrow> number \<Rightarrow> number" where
  "num_sub (Finite a) (Finite b) = Finite (a - b)"
| "num_sub (Finite a) PosInfinity = NegInfinity"
| "num_sub (Finite a) NegInfinity = PosInfinity"
| "num_sub PosInfinity (Finite b) = PosInfinity"
| "num_sub PosInfinity NegInfinity = PosInfinity"
| "num_sub NegInfinity (Finite b) = NegInfinity"
| "num_sub NegInfinity PosInfinity = NegInfinity"
| "num_sub _ _ = NaN"

fun num_mul :: "number \<Rightarrow> number \<Rightarrow> number" where
  "num_mul (Finite a) (Finite b) = Finite (a * b)"
| "num_mul (Finite a) PosInfinity =
     (if a = 0 then NaN else if 0 < a then PosInfinity else NegInfinity)"
| "num_mul (Finite a) NegInfinity =
     (if a = 0 then NaN else if 0 < a then NegInfinity else PosInfinity)"
| "num_mul PosInfinity (Finite b) =
     (if b = 0 then NaN else if 0 < b then PosInfinity else NegInfinity)"
| "num_mul NegInfinity (Finite b) =
     (if b = 0 then NaN else if 0 < b then NegInfinity else PosInfinity)"
| "num_mul PosInfinity PosInfinity = PosInfinity"
| "num_mul PosInfinity NegInfinity = NegInfinity"
| "num_mul NegInfinity PosInfinity = NegInfinity"
| "num_mul NegInfinity NegInfinity = PosInfinity"
| "num_mul _ _ = NaN"

text \<open>The comparison \<^verbatim>\<open>x > 0\<close>: false for \<^verbatim>\<open>NaN\<close> and for the negative infinity.\<close>

fun positive :: "number \<Rightarrow> bool" where
  "positive (Finite a) = (0 < a)"
| "positive PosInfinity = True"
| "positive NegInfinity = False"
| "positive NaN = False"

section \<open>Strings\<close>

text \<open>
  \<^verbatim>\<open>startsWith\<close>, \<^verbatim>\<open>substringFrom\<close> and \<^verbatim>\<open>substringUpTo\<close> come from the
  \<^verbatim>\<open>prototypes\<close> package that the file requires; \<^verbatim>\<open>split\<close> and \<^verbatim>\<open>indexOf\<close> are
  the language's own. As the package documents them:
  \<^verbatim>\<open>'hi.there'.substringUpTo('.')\<close> is \<^verbatim>\<open>'hi'\<close> (the piece before the first
  occurrence of the argument, the whole string when there is none) and
  \<^verbatim>\<open>'hi.there'.substringFrom('.')\<close> is \<^verbatim>\<open>'there'\<close> (the piece after the first
  occurrence, the empty string when there is none).
\<close>

definition startsWith :: "string \<Rightarrow> string \<Rightarrow> bool" where
  "startsWith s str = (take (length str) s = str)"

fun indexOf :: "string \<Rightarrow> string \<Rightarrow> nat option" where
  "indexOf [] str = (if str = [] then Some 0 else None)"
| "indexOf (c # cs) str =
     (if startsWith (c # cs) str then Some 0 else map_option Suc (indexOf cs str))"

definition substringFrom :: "string \<Rightarrow> string \<Rightarrow> string" where
  "substringFrom s str =
     (case indexOf s str of None \<Rightarrow> [] | Some i \<Rightarrow> drop (i + length str) s)"

definition substringUpTo :: "string \<Rightarrow> string \<Rightarrow> string" where
  "substringUpTo s str = (case indexOf s str of None \<Rightarrow> s | Some i \<Rightarrow> take i s)"

text \<open>
  \<^verbatim>\<open>s.split('/')\<close>: the pieces between the separators, so a string with \<open>k\<close>
  separators has \<open>k + 1\<close> pieces and the empty string has one (empty) piece.
\<close>

fun split :: "string \<Rightarrow> char \<Rightarrow> string list" where
  "split [] sep = [[]]"
| "split (c # cs) sep =
     (if c = sep then [] # split cs sep
      else (case split cs sep of [] \<Rightarrow> [[c]] | p # ps \<Rightarrow> (c # p) # ps))"

section \<open>Data\<close>

record repo =
  type :: "string option"
  url :: "string option"

record entry =
  name :: "string option"
  repository :: "repo option"

text \<open>
  What \<^verbatim>\<open>extractPieces\<close> returns: the empty object \<^verbatim>\<open>{}\<close>, or
  \<^verbatim>\<open>{valid: true, owner: ..., name: ...}\<close>.
\<close>

datatype info = EmptyObject | Info (owner: string) (info_name: string)

fun valid :: "info \<Rightarrow> bool" where
  "valid EmptyObject = False"
| "valid (Info _ _) = True"

record issue =
  state :: string

record item =
  downloads :: nat

text \<open>The body of the download-series endpoint; \<open>series\<close> is its \<^verbatim>\<open>downloads\<close> key.\<close>

record range =
  series :: "item list option"

text \<open>
  The registry document. Only the keys of \<^verbatim>\<open>versions\<close> are used; the object is an
  association list, and a key counts once.
\<close>

record registry =
  versions :: "(string \<times> unit) list option"

definition countProperties :: "(string \<times> 'v) list \<Rightarrow> nat" where
  "countProperties obj = length (remdups (map fst obj))"

section \<open>The outside world\<close>

text \<open>
  A request calls back with \<^verbatim>\<open>(error, response, body)\<close>. The body is kept as what
  \<^verbatim>\<open>JSON.parse\<close> makes of it: an exception (with the raw text and the exception's
  text, which the program puts in its messages), the value \<^verbatim>\<open>null\<close>, or a document
  of the shape the endpoint serves.
\<close>

record response =
  statusCode :: nat

datatype 'a body = Malformed string string | Null | Value 'a

record 'a reply =
  error :: "string option"
  response :: "response option"
  body :: "'a body"

record env =
  JSON_stringify :: "entry option \<Rightarrow> string"
  issues_get :: "string \<Rightarrow> string \<Rightarrow> issue list reply"
  downloads_get :: "string \<Rightarrow> range reply"
  registry_get :: "string \<Rightarrow> registry reply"

text \<open>
  A call ends in one of three ways: the callback receives an error, the callback
  receives a value, or an uncaught \<^verbatim>\<open>TypeError\<close> is thrown (a property read on
  \<^verbatim>\<open>null\<close> or \<^verbatim>\<open>undefined\<close>). The requests sent are recorded in order.
\<close>

datatype failure = CallbackError string | TypeError

datatype request = IssuesRequest string string | DownloadsRequest string | RegistryRequest string

type_synonym 'a io = "request list \<times> (failure + 'a)"

text \<open>One step of \<^verbatim>\<open>async.waterfall\<close>: an error ends the chain, a value goes on.\<close>

definition next_task :: "'a io \<Rightarrow> ('a \<Rightarrow> 'b io) \<Rightarrow> 'b io" where
  "next_task m f =
     (case m of
        (t, Inl e) \<Rightarrow> (t, Inl e)
      | (t, Inr x) \<Rightarrow> (case f x of (t', r) \<Rightarrow> (t @ t', r)))"

section \<open>Locating the repository\<close>

definition extractPieces :: "string \<Rightarrow> nat \<Rightarrow> info" where
  "extractPieces remaining initial =
     (let pieces = split remaining CHR ''/'' in
      if length pieces \<noteq> initial + 2 then EmptyObject
      else Info (pieces ! initial) (substringUpTo (pieces ! (initial + 1)) ''.git''))"

definition extractRepoInfo :: "repo option \<Rightarrow> info option" where
  "extractRepoInfo r =
     (case r of
        None \<Rightarrow> None
      | Some repo \<Rightarrow>
          (case (type repo, url repo) of
             (Some ty, Some u) \<Rightarrow>
               if ty = [] \<or> u = [] then None
               else if ty \<noteq> ''git'' then None
               else if startsWith u ''git@github.com:''
                 then Some (extractPieces (substringFrom u ''git@github.com:'') 0)
               else if startsWith u ''git://github.com:''
                 then Some (extractPieces (substringFrom u ''git://github.com:'') 0)
               else Some (extractPieces u 3)
           | _ \<Rightarrow> None))"

section \<open>The three scores\<close>

text \<open>The loop over the issues: the counters \<^verbatim>\<open>open\<close>, \<^verbatim>\<open>closed\<close> and \<^verbatim>\<open>total\<close>.\<close>

fun count_issues :: "issue list \<Rightarrow> nat \<times> nat \<times> nat \<Rightarrow> nat \<times> nat \<times> nat" where
  "count_issues [] acc = acc"
| "count_issues (i # is) (opn, cls, tot) =
     count_issues is
       (if state i = ''open'' then (opn + 1, cls, tot + 1)
        else if state i = ''closed'' then (opn, cls + 1, tot + 1)
        else (opn, cls, tot + 1))"

definition issues_quality :: "issue list \<Rightarrow> number" where
  "issues_quality issues =
     (case count_issues issues (0, 0, 0) of
        (opn, cls, tot) \<Rightarrow>
          if tot = 0 then Finite 0
          else num_sub (Finite 1) (num_div (Finite (real opn)) (Finite (real tot))))"

definition estimateRepo :: "env \<Rightarrow> repo option \<Rightarrow> number io" where
  "estimateRepo env r =
     (case extractRepoInfo r of
        None \<Rightarrow> ([], Inr (Finite 0))
      | Some info \<Rightarrow>
          if \<not> valid info then ([], Inr (Finite 0))
          else
            (let rep = issues_get env (owner info) (info_name info) in
             ([IssuesRequest (owner info) (info_name info)],
              case error rep of
                Some e \<Rightarrow> Inr (Finite 0)
              | None \<Rightarrow>
                  (case body rep of
                     Malformed raw exn \<Rightarrow>
                       Inl (CallbackError (''Invalid issues in '' @ raw @ '': '' @ exn))
                   | Null \<Rightarrow> Inl TypeError
                   | Value issues \<Rightarrow> Inr (issues_quality issues)))))"

fun sum_downloads :: "item list \<Rightarrow> nat \<Rightarrow> nat" where
  "sum_downloads [] acc = acc"
| "sum_downloads (i # is) acc = sum_downloads is (acc + downloads i)"

text \<open>
  The quality of lines 153-161, as the exact value of \<^verbatim>\<open>1 - 1/downloads\<close>. The double
  that the program returns is the rounding of this value; it agrees with it up to
  rounding, and equals 1.0 once the total reaches \<open>2 ^ 54\<close>
  (see \<open>downloads_quality_rounded\<close>).
\<close>

definition downloads_quality :: "range \<Rightarrow> number" where
  "downloads_quality result =
     (case series result of
        None \<Rightarrow> Finite 0
      | Some items \<Rightarrow>
          num_sub (Finite 1) (num_div (Finite 1) (Finite (real (sum_downloads items 0)))))"

definition estimateDownloadsLastYear :: "env \<Rightarrow> string \<Rightarrow> number io" where
  "estimateDownloadsLastYear env nm =
     (let rep = downloads_get env nm in
      ([DownloadsRequest nm],
       case error rep of
         Some e \<Rightarrow>
           (case response rep of
              None \<Rightarrow> Inl TypeError
            | Some resp \<Rightarrow> if statusCode resp = 404 then Inr (Finite 0) else Inr (Finite 0))
       | None \<Rightarrow>
           (case body rep of
              Malformed raw exn \<Rightarrow> Inl (CallbackError (''Could not parse '' @ nm @ '': '' @ exn))
            | Null \<Rightarrow> Inl TypeError
            | Value result \<Rightarrow> Inr (downloads_quality result))))"

definition estimateVersions :: "(string \<times> unit) list option \<Rightarrow> number io" where
  "estimateVersions vs =
     (case vs of
        None \<Rightarrow> ([], Inr (Finite 0))
      | Some obj \<Rightarrow>
          ([], Inr (num_sub (Finite 1) (num_div (Finite 1) (Finite (real (countProperties obj)))))))"

section \<open>The pipeline\<close>

text \<open>The four tasks of the waterfall, in the order of the source.\<close>

definition task_repo :: "env \<Rightarrow> entry \<Rightarrow> number io" where
  "task_repo env e = estimateRepo env (repository e)"

definition task_downloads :: "env \<Rightarrow> string \<Rightarrow> number \<Rightarrow> number io" where
  "task_downloads env nm consolidatedQuality =
     (if positive consolidatedQuality
      then (case estimateDownloadsLastYear env nm of
              (t, Inl err) \<Rightarrow> (t, Inl err)
            | (t, Inr downloadsQuality) \<Rightarrow> (t, Inr (num_mul consolidatedQuality downloadsQuality)))
      else ([], Inr consolidatedQuality))"

definition task_registry :: "env \<Rightarrow> string \<Rightarrow> number \<Rightarrow> (number \<times> registry option) io" where
  "task_registry env nm consolidatedQuality =
     (if positive consolidatedQuality
      then
        (let rep = registry_get env nm in
         ([RegistryRequest nm],
          case error rep of
            Some e \<Rightarrow>
              (case response rep of
                 None \<Rightarrow> Inl TypeError
               | Some resp \<Rightarrow>
                   if statusCode resp = 404 then Inr (Finite 0, None) else Inr (Finite 0, None))
          | None \<Rightarrow>
              (case body rep of
                 Malformed raw exn \<Rightarrow> Inr (Finite 0, None)
               | Null \<Rightarrow> Inr (consolidatedQuality, None)
               | Value registryResponse \<Rightarrow> Inr (consolidatedQuality, Some registryResponse))))
      else ([], Inr (consolidatedQuality, None)))"

definition task_versions :: "number \<times> registry option \<Rightarrow> number io" where
  "task_versions a =
     (case a of
        (consolidatedQuality, registryResponse) \<Rightarrow>
          if positive consolidatedQuality
          then (case registryResponse of
                  None \<Rightarrow> ([], Inl TypeError)
                | Some doc \<Rightarrow>
                    (case estimateVersions (versions doc) of
                       (t, Inl err) \<Rightarrow> (t, Inl err)
                     | (t, Inr versionQuality) \<Rightarrow>
                         (t, Inr (num_mul consolidatedQuality versionQuality))))
          else ([], Inr consolidatedQuality))"

definition waterfall :: "env \<Rightarrow> entry \<Rightarrow> string \<Rightarrow> number io" where
  "waterfall env e nm =
     next_task (next_task (next_task (task_repo env e) (task_downloads env nm))
                  (task_registry env nm))
       task_versions"

definition estimate :: "env \<Rightarrow> entry option \<Rightarrow> number io" where
  "estimate env ent =
     (case ent of
        None \<Rightarrow> ([], Inl (CallbackError (JSON_stringify env ent @ '' is null or has no name'')))
      | Some e \<Rightarrow>
          (case name e of
             None \<Rightarrow> ([], Inl (CallbackError (JSON_stringify env ent @ '' is null or has no name'')))
           | Some nm \<Rightarrow>
               if nm = []
               then ([], Inl (CallbackError (JSON_stringify env ent @ '' is null or has no name'')))
               else waterfall env e nm))"

section \<open>The scores under rounding\<close>

text \<open>
  The three formulas once more, with a rounding function \<open>rnd\<close> applied to every
  arithmetic result (and to every number read from a response), as the doubles of the
  program do. With the identity for \<open>rnd\<close> these are the exact definitions above.
  Rounding to the nearest double is monotone and leaves 0 and 1 unchanged; nothing
  else about it is used.
\<close>

fun num_round :: "(real \<Rightarrow> real) \<Rightarrow> number \<Rightarrow> number" where
  "num_round rnd (Finite a) = Finite (rnd a)"
| "num_round rnd PosInfinity = PosInfinity"
| "num_round rnd NegInfinity = NegInfinity"
| "num_round rnd NaN = NaN"

definition issues_quality_rounded :: "(real \<Rightarrow> real) \<Rightarrow> issue list \<Rightarrow> number" where
  "issues_quality_rounded rnd issues =
     (case count_issues issues (0, 0, 0) of
        (opn, cls, tot) \<Rightarrow>
          if tot = 0 then Finite 0
          else num_round rnd (num_sub (Finite 1)
                 (num_round rnd (num_div (Finite (real opn)) (Finite (real tot))))))"

fun sum_downloads_rounded :: "(real \<Rightarrow> real) \<Rightarrow> item list \<Rightarrow> real \<Rightarrow> real" where
  "sum_downloads_rounded rnd [] acc = acc"
| "sum_downloads_rounded rnd (i # is) acc =
     sum_downloads_rounded rnd is (rnd (acc + rnd (real (downloads i))))"

definition downloads_quality_rounded :: "(real \<Rightarrow> real) \<Rightarrow> range \<Rightarrow> number" where
  "downloads_quality_rounded rnd result =
     (case series result of
        None \<Rightarrow> Finite 0
      | Some items \<Rightarrow>
          num_round rnd (num_sub (Finite 1)
            (num_round rnd (num_div (Finite 1) (Finite (sum_downloads_rounded rnd items 0))))))"

definition versions_quality_rounded :: "(real \<Rightarrow> real) \<Rightarrow> (string \<times> unit) list option \<Rightarrow> number" where
  "versions_quality_rounded rnd vs =
     (case vs of
        None \<Rightarrow> Finite 0
      | Some obj \<Rightarrow>
          num_round rnd (num_sub (Finite 1)
            (num_round rnd (num_div (Finite 1) (Finite (real (countProperties obj)))))))"

section \<open>Sample inputs\<close>

text \<open>
  Concrete worlds and entries on which the theorems below are evaluated: \<open>ok v\<close> is a
  reply without transport error whose body parses to \<open>v\<close>, and \<open>world i d r\<close> answers
  every issue-list, download-series and registry request with \<open>i\<close>, \<open>d\<close> and \<open>r\<close>.
\<close>

definition ok :: "'a \<Rightarrow> 'a reply" where
  "ok v = \<lparr>error = None, response = Some \<lparr>statusCode = 200\<rparr>, body = Value v\<rparr>"

definition world :: "issue list reply \<Rightarrow> range reply \<Rightarrow> registry reply \<Rightarrow> env" where
  "world i d r =
     \<lparr>JSON_stringify = (\<lambda>e. case e of None \<Rightarrow> ''null'' | Some _ \<Rightarrow> ''{}''),
      issues_get = (\<lambda>_ _. i), downloads_get = (\<lambda>_. d), registry_get = (\<lambda>_. r)\<rparr>"

definition sample_entry :: entry where
  "sample_entry =
     \<lparr>name = Some ''pkg'',
      repository = Some \<lparr>type = Some ''git'', url = Some ''git@github.com:owner/repo.git''\<rparr>\<rparr>"

definition issues_closed :: "issue list reply" where
  "issues_closed = ok [\<lparr>state = ''closed''\<rparr>]"

definition issues_half :: "issue list reply" where
  "issues_half = ok [\<lparr>state = ''open''\<rparr>, \<lparr>state = ''closed''\<rparr>]"

definition issues_open :: "issue list reply" where
  "issues_open = ok [\<lparr>state = ''open''\<rparr>]"

definition downloads_five :: "range reply" where
  "downloads_five = ok \<lparr>series = Some [\<lparr>downloads = 2\<rparr>, \<lparr>downloads = 3\<rparr>]\<rparr>"

definition downloads_one :: "range reply" where
  "downloads_one = ok \<lparr>series = Some [\<lparr>downloads = 1\<rparr>]\<rparr>"

definition registry_two :: "registry reply" where
  "registry_two = ok \<lparr>versions = Some [(''1.0.0'', ()), (''1.0.1'', ())]\<rparr>"

definition registry_one :: "registry reply" where
  "registry_one = ok \<lparr>versions = Some [(''1.0.0'', ())]\<rparr>"

definition malformed :: "'a reply" where
  "malformed =
     \<lparr>error = None, response = Some \<lparr>statusCode = 200\<rparr>,
      body = Malformed ''<html>'' ''SyntaxError: Unexpected token <''\<rparr>"

definition not_found :: "'a reply" where
  "not_found = \<lparr>error = Some ''Not Found'', response = Some \<lparr>statusCode = 404\<rparr>, body = Null\<rparr>"

definition refused :: "'a reply" where
  "refused = \<lparr>error = Some ''ECONNREFUSED'', response = None, body = Null\<rparr>"

section \<open>Basic facts\<close>

lemmas sample_defs =
  ok_def world_def sample_entry_def issues_closed_def issues_half_def issues_open_def
  downloads_five_def downloads_one_def registry_two_def registry_one_def malformed_def
  not_found_def refused_def

lemma sample_located:
  "extractRepoInfo (repository sample_entry) = Some (Info ''owner'' ''repo'')"
  by (simp add: sample_entry_def extractRepoInfo_def extractPieces_def startsWith_def
      substringFrom_def substringUpTo_def)

lemma sample_named: "name sample_entry = Some ''pkg''" "''pkg'' \<noteq> []"
  by (simp_all add: sample_entry_def)

subsection \<open>The waterfall, task by task\<close>

lemma estimate_named:
  assumes "name e = Some nm" and "nm \<noteq> []"
  shows "estimate env (Some e) = waterfall env e nm"
  using assms by (simp add: estimate_def)

lemma next_task_value: "next_task (t, Inr x) f = (t @ fst (f x), snd (f x))"
  by (simp add: next_task_def split: prod.splits)

lemma next_task_error: "next_task (t, Inl err) f = (t, Inl err)"
  by (simp add: next_task_def)

lemma task_downloads_skipped: "\<not> positive q \<Longrightarrow> task_downloads env nm q = ([], Inr q)"
  by (simp add: task_downloads_def)

lemma task_registry_skipped: "\<not> positive q \<Longrightarrow> task_registry env nm q = ([], Inr (q, None))"
  by (simp add: task_registry_def)

lemma task_versions_skipped: "\<not> positive q \<Longrightarrow> task_versions (q, doc) = ([], Inr q)"
  by (simp add: task_versions_def)

lemma waterfall_after_repo:
  assumes "estimateRepo env (repository e) = (t1, Inr q1)"
  shows "waterfall env e nm =
           next_task (next_task (t1 @ fst (task_downloads env nm q1), snd (task_downloads env nm q1))
                        (task_registry env nm))
             task_versions"
  using assms by (simp add: waterfall_def task_repo_def next_task_value)

lemma waterfall_after_downloads:
  assumes "estimateRepo env (repository e) = (t1, Inr q1)"
    and "task_downloads env nm q1 = (t2, Inr q2)"
  shows "waterfall env e nm =
           next_task ((t1 @ t2) @ fst (task_registry env nm q2), snd (task_registry env nm q2))
             task_versions"
  using assms by (simp add: waterfall_after_repo next_task_value)

lemma waterfall_after_registry:
  assumes "estimateRepo env (repository e) = (t1, Inr q1)"
    and "task_downloads env nm q1 = (t2, Inr q2)"
    and "task_registry env nm q2 = (t3, Inr (q3, doc))"
  shows "waterfall env e nm =
           (t1 @ t2 @ t3 @ fst (task_versions (q3, doc)), snd (task_versions (q3, doc)))"
  using assms by (simp add: waterfall_after_downloads next_task_value)

lemma task_downloads_run:
  assumes "positive q"
  shows "task_downloads env nm q =
           (case estimateDownloadsLastYear env nm of
              (t, Inl err) \<Rightarrow> (t, Inl err)
            | (t, Inr downloadsQuality) \<Rightarrow> (t, Inr (num_mul q downloadsQuality)))"
  using assms by (simp add: task_downloads_def)

lemma fst_estimateDownloadsLastYear: "fst (estimateDownloadsLastYear env nm) = [DownloadsRequest nm]"
  by (simp add: estimateDownloadsLastYear_def Let_def)

lemma task_downloads_value:
  assumes "positive q" and "snd (estimateDownloadsLastYear env nm) = Inr qd"
  shows "task_downloads env nm q = ([DownloadsRequest nm], Inr (num_mul q qd))"
proof -
  have "estimateDownloadsLastYear env nm = ([DownloadsRequest nm], Inr qd)"
    using assms(2) fst_estimateDownloadsLastYear [of env nm]
    by (cases "estimateDownloadsLastYear env nm") simp
  then show ?thesis using assms(1) by (simp add: task_downloads_run)
qed

lemma task_registry_value:
  assumes "positive q" and "error (registry_get env nm) = None"
    and "body (registry_get env nm) = Value doc"
  shows "task_registry env nm q = ([RegistryRequest nm], Inr (q, Some doc))"
  using assms by (simp add: task_registry_def)

lemma task_versions_value:
  assumes "positive q" and "estimateVersions (versions doc) = (t, Inr qv)"
  shows "task_versions (q, Some doc) = (t, Inr (num_mul q qv))"
  using assms by (simp add: task_versions_def)

lemma estimateDownloadsLastYear_cong:
  assumes "downloads_get env' nm = downloads_get env nm"
  shows "estimateDownloadsLastYear env' nm = estimateDownloadsLastYear env nm"
  using assms by (simp add: estimateDownloadsLastYear_def)

lemma fst_estimateVersions: "fst (estimateVersions vs) = []"
  by (simp add: estimateVersions_def split: option.splits)

lemma short_circuit_repo:
  assumes "name e = Some nm" and "nm \<noteq> []"
    and "estimateRepo env (repository e) = (t1, Inr (Finite 0))"
  shows "estimate env (Some e) = (t1, Inr (Finite 0))"
proof -
  have zero: "\<not> positive (Finite 0)" by simp
  have d: "task_downloads env nm (Finite 0) = ([], Inr (Finite 0))"
    using zero by (rule task_downloads_skipped)
  have r: "task_registry env nm (Finite 0) = ([], Inr (Finite 0, None))"
    using zero by (rule task_registry_skipped)
  have v: "task_versions (Finite 0, None) = ([], Inr (Finite 0))"
    using zero by (rule task_versions_skipped)
  show ?thesis
    using waterfall_after_registry [OF assms(3) d r] v assms(1,2) by (simp add: estimate_named)
qed

subsection \<open>The counters and the ranges of the scores\<close>

lemma count_issues_acc:
  "count_issues issues (a, b, c) =
     (a + length (filter (\<lambda>i. state i = ''open'') issues),
      b + length (filter (\<lambda>i. state i \<noteq> ''open'' \<and> state i = ''closed'') issues),
      c + length issues)"
  by (induction issues arbitrary: a b c) auto

lemma issues_quality_eq:
  "issues_quality issues =
     (if issues = [] then Finite 0
      else Finite (1 - real (length (filter (\<lambda>i. state i = ''open'') issues)) / real (length issues)))"
  by (simp add: issues_quality_def count_issues_acc)

lemma unit_interval_complement:
  fixes a b :: real
  assumes "0 \<le> a" and "a \<le> b" and "0 < b"
  shows "0 \<le> 1 - a / b" and "1 - a / b \<le> 1"
  using assms by (simp_all add: divide_le_eq)

lemma reciprocal_complement:
  assumes "1 \<le> (n::nat)"
  shows "0 \<le> 1 - 1 / real n" and "1 - 1 / real n < 1"
  using assms by (simp_all add: divide_le_eq)

lemma issues_quality_range: "\<exists>x. issues_quality issues = Finite x \<and> 0 \<le> x \<and> x \<le> 1"
proof (cases "issues = []")
  case True
  then show ?thesis by (simp add: issues_quality_eq)
next
  case False
  let ?a = "real (length (filter (\<lambda>i. state i = ''open'') issues))"
  let ?b = "real (length issues)"
  have "0 \<le> ?a" "?a \<le> ?b" "0 < ?b" using False by simp_all
  then have "0 \<le> 1 - ?a / ?b" "1 - ?a / ?b \<le> 1"
    by (rule unit_interval_complement)+
  with False show ?thesis by (simp add: issues_quality_eq)
qed

lemma estimateRepo_range:
  assumes "snd (estimateRepo env r) = Inr q"
  shows "\<exists>x. q = Finite x \<and> 0 \<le> x \<and> x \<le> 1"
  using assms issues_quality_range
  by (auto simp: estimateRepo_def Let_def split: option.splits if_splits body.splits)

lemma downloads_quality_positive:
  assumes "positive (downloads_quality result)"
  shows "\<exists>x. downloads_quality result = Finite x \<and> 0 < x \<and> x < 1"
proof (cases "series result")
  case None
  with assms show ?thesis by (simp add: downloads_quality_def)
next
  case (Some items)
  show ?thesis
  proof (cases "sum_downloads items 0 = 0")
    case True
    with Some assms show ?thesis by (simp add: downloads_quality_def)
  next
    case False
    then have "1 \<le> sum_downloads items 0" by simp
    from reciprocal_complement(2) [OF this] Some False assms show ?thesis
      by (simp add: downloads_quality_def)
  qed
qed

lemma estimateDownloadsLastYear_positive:
  assumes "snd (estimateDownloadsLastYear env nm) = Inr q" and "positive q"
  shows "\<exists>x. q = Finite x \<and> 0 < x \<and> x < 1"
  using assms downloads_quality_positive
  by (auto simp: estimateDownloadsLastYear_def Let_def split: option.splits if_splits body.splits)

lemma sum_downloads_acc: "sum_downloads items acc = acc + sum_list (map downloads items)"
  by (induction items arbitrary: acc) auto

lemma estimateVersions_several:
  assumes "2 \<le> countProperties obj"
  shows "estimateVersions (Some obj) = ([], Inr (Finite (1 - 1 / real (countProperties obj))))"
    and "0 < 1 - 1 / real (countProperties obj)"
    and "1 - 1 / real (countProperties obj) < 1"
  using assms by (simp_all add: estimateVersions_def)

lemma product_in_unit_interval:
  fixes a b c :: real
  assumes "0 < a" "a \<le> 1" "0 < b" "b < 1" "0 < c" "c < 1"
  shows "0 < a * b * c" and "a * b * c < 1"
proof -
  have ab: "0 < a * b" using assms by simp
  have "a * b \<le> b" using mult_right_mono [of a 1 b] assms by simp
  then have ab1: "a * b < 1" using assms by linarith
  show "0 < a * b * c" using ab assms by simp
  have "a * b * c \<le> c" using mult_right_mono [of "a * b" 1 c] ab1 assms by simp
  then show "a * b * c < 1" using assms by linarith
qed

lemma estimateVersions_positive:
  assumes "snd (estimateVersions vs) = Inr qv" and "positive qv"
  shows "\<exists>x. qv = Finite x \<and> 0 < x"
proof (cases vs)
  case None
  with assms show ?thesis by (auto simp: estimateVersions_def)
next
  case (Some obj)
  show ?thesis
  proof (cases "countProperties obj = 0")
    case True
    with Some assms show ?thesis by (auto simp: estimateVersions_def)
  next
    case False
    with Some assms show ?thesis by (auto simp: estimateVersions_def)
  qed
qed

lemma estimate_all_positive:
  assumes nm: "name e = Some nm" "nm \<noteq> []"
    and repo: "estimateRepo env (repository e) = (t1, Inr (Finite xi))" and xi: "0 < xi"
    and dl: "snd (estimateDownloadsLastYear env nm) = Inr (Finite xd)" and xd: "0 < xd"
    and rg: "error (registry_get env nm) = None" "body (registry_get env nm) = Value doc"
    and vs: "estimateVersions (versions doc) = ([], Inr (Finite xv))"
  shows "estimate env (Some e) =
           (t1 @ [DownloadsRequest nm, RegistryRequest nm], Inr (Finite (xi * xd * xv)))"
proof -
  have p1: "positive (Finite xi)" using xi by simp
  have d: "task_downloads env nm (Finite xi) = ([DownloadsRequest nm], Inr (Finite (xi * xd)))"
    using task_downloads_value [OF p1 dl] by simp
  have p2: "positive (Finite (xi * xd))" using xi xd by simp
  have g: "task_registry env nm (Finite (xi * xd))
             = ([RegistryRequest nm], Inr (Finite (xi * xd), Some doc))"
    using task_registry_value [OF p2 rg] .
  have v: "task_versions (Finite (xi * xd), Some doc) = ([], Inr (Finite (xi * xd * xv)))"
    using task_versions_value [OF p2 vs] by simp
  show ?thesis
    using waterfall_after_registry [OF repo d g] v nm by (simp add: estimate_named)
qed

subsection \<open>Rounding\<close>

text \<open>
  The rounded formulas agree with the exact ones under the identity, and under every
  monotone rounding that fixes 0 and 1 their values stay in the closed unit interval.
  The upper end is reached: with a coarse rounding already at a total of 999, with
  doubles from a total of \<open>2 ^ 54\<close>.
\<close>

lemma num_round_exact: "num_round (\<lambda>x. x) q = q"
  by (cases q) simp_all

lemma issues_quality_rounded_exact: "issues_quality_rounded (\<lambda>x. x) issues = issues_quality issues"
  by (simp add: issues_quality_rounded_def issues_quality_def num_round_exact split: prod.splits)

lemma sum_downloads_rounded_exact:
  "sum_downloads_rounded (\<lambda>x. x) items (real acc) = real (sum_downloads items acc)"
proof (induction items arbitrary: acc)
  case Nil
  show ?case by simp
next
  case (Cons i items)
  have "sum_downloads_rounded (\<lambda>x. x) (i # items) (real acc)
          = sum_downloads_rounded (\<lambda>x. x) items (real (acc + downloads i))"
    by simp
  also have "\<dots> = real (sum_downloads items (acc + downloads i))"
    by (rule Cons.IH)
  also have "\<dots> = real (sum_downloads (i # items) acc)"
    by simp
  finally show ?case .
qed

lemma downloads_quality_rounded_exact:
  "downloads_quality_rounded (\<lambda>x. x) result = downloads_quality result"
proof (cases "series result")
  case None
  then show ?thesis by (simp add: downloads_quality_rounded_def downloads_quality_def)
next
  case (Some items)
  have "sum_downloads_rounded (\<lambda>x. x) items 0 = real (sum_downloads items 0)"
    using sum_downloads_rounded_exact [of items 0] by simp
  with Some show ?thesis
    by (simp add: downloads_quality_rounded_def downloads_quality_def num_round_exact)
qed

lemma versions_quality_rounded_exact:
  "estimateVersions vs = ([], Inr (versions_quality_rounded (\<lambda>x. x) vs))"
  by (simp add: versions_quality_rounded_def estimateVersions_def num_round_exact
      split: option.splits)

lemma rounded_unit:
  fixes rnd :: "real \<Rightarrow> real"
  assumes "mono rnd" and "rnd 0 = 0" and "rnd 1 = 1" and "0 \<le> x" and "x \<le> 1"
  shows "0 \<le> rnd x" and "rnd x \<le> 1"
  using monoD [OF assms(1) assms(4)] monoD [OF assms(1) assms(5)] assms(2,3) by simp_all

lemma rounded_complement_unit:
  fixes rnd :: "real \<Rightarrow> real"
  assumes "mono rnd" and "rnd 0 = 0" and "rnd 1 = 1" and "0 \<le> x" and "x \<le> 1"
  shows "0 \<le> rnd (1 - rnd x)" and "rnd (1 - rnd x) \<le> 1"
proof -
  have lo: "0 \<le> 1 - rnd x" using rounded_unit(2) [OF assms] by linarith
  have hi: "1 - rnd x \<le> 1" using rounded_unit(1) [OF assms] by linarith
  show "0 \<le> rnd (1 - rnd x)" using assms(1-3) lo hi by (rule rounded_unit(1))
  show "rnd (1 - rnd x) \<le> 1" using assms(1-3) lo hi by (rule rounded_unit(2))
qed

lemma issues_quality_rounded_range:
  assumes "mono rnd" and "rnd 0 = 0" and "rnd 1 = 1"
  shows "\<exists>x. issues_quality_rounded rnd issues = Finite x \<and> 0 \<le> x \<and> x \<le> 1"
proof (cases "issues = []")
  case True
  then show ?thesis by (simp add: issues_quality_rounded_def)
next
  case False
  let ?a = "real (length (filter (\<lambda>i. state i = ''open'') issues))"
  let ?b = "real (length issues)"
  have "0 \<le> ?a / ?b" "?a / ?b \<le> 1" using False by (simp_all add: divide_le_eq)
  note b = rounded_complement_unit [OF assms this]
  with False show ?thesis by (simp add: issues_quality_rounded_def count_issues_acc)
qed

lemma downloads_quality_rounded_range:
  assumes "mono rnd" and "rnd 0 = 0" and "rnd 1 = 1"
    and "series result = Some items" and "1 \<le> sum_downloads_rounded rnd items 0"
  shows "\<exists>x. downloads_quality_rounded rnd result = Finite x \<and> 0 \<le> x \<and> x \<le> 1"
proof -
  let ?t = "sum_downloads_rounded rnd items 0"
  have "0 \<le> 1 / ?t" "1 / ?t \<le> 1" using assms(5) by simp_all
  note b = rounded_complement_unit [OF assms(1-3) this]
  with assms(4,5) show ?thesis by (simp add: downloads_quality_rounded_def)
qed

lemma versions_quality_rounded_range:
  assumes "mono rnd" and "rnd 0 = 0" and "rnd 1 = 1" and "1 \<le> countProperties obj"
  shows "\<exists>x. versions_quality_rounded rnd (Some obj) = Finite x \<and> 0 \<le> x \<and> x \<le> 1"
proof -
  let ?n = "real (countProperties obj)"
  have "0 \<le> 1 / ?n" "1 / ?n \<le> 1" using assms(4) by simp_all
  note b = rounded_complement_unit [OF assms(1-3) this]
  with assms(4) show ?thesis by (simp add: versions_quality_rounded_def)
qed

lemma coarse_rounding:
  "mono (\<lambda>x::real. real_of_int (round x))"
  "real_of_int (round (0::real)) = 0" "real_of_int (round (1::real)) = 1"
  by (simp_all add: mono_def round_mono)

lemma rounded_score_reaches_one:
  "downloads_quality_rounded (\<lambda>x. real_of_int (round x)) \<lparr>series = Some [\<lparr>downloads = 999\<rparr>]\<rparr>
     = Finite 1"
  by (simp add: downloads_quality_rounded_def round_def)

section \<open>Input validation\<close>

text \<open>
  C7. An entry that is null, or whose name is absent or empty, makes \<open>estimate\<close> call
  back at once with an error built from the serialised entry; no request is sent (the
  trace is empty).
\<close>

theorem estimate_without_name:
  assumes "ent = None \<or> (\<exists>e. ent = Some e \<and> (name e = None \<or> name e = Some []))"
  shows "estimate env ent =
           ([], Inl (CallbackError (JSON_stringify env ent @ '' is null or has no name'')))"
  using assms by (auto simp: estimate_def)

theorem estimate_without_name_witness:
  "estimate (world (ok []) (ok \<lparr>series = None\<rparr>) (ok \<lparr>versions = None\<rparr>)) None =
     ([], Inl (CallbackError ''null is null or has no name''))
   \<and> estimate (world (ok []) (ok \<lparr>series = None\<rparr>) (ok \<lparr>versions = None\<rparr>))
       (Some \<lparr>name = Some [], repository = repository sample_entry\<rparr>) =
     ([], Inl (CallbackError ''{} is null or has no name''))"
  using estimate_without_name [of None "world (ok []) (ok \<lparr>series = None\<rparr>) (ok \<lparr>versions = None\<rparr>)"]
    estimate_without_name [of "Some \<lparr>name = Some [], repository = repository sample_entry\<rparr>"
      "world (ok []) (ok \<lparr>series = None\<rparr>) (ok \<lparr>versions = None\<rparr>)"]
  by (simp add: world_def)

section \<open>Short-circuiting\<close>

text \<open>
  A repository that cannot be located costs no request at all.
\<close>

lemma estimateRepo_not_located:
  assumes "extractRepoInfo r = None \<or> extractRepoInfo r = Some EmptyObject"
  shows "estimateRepo env r = ([], Inr (Finite 0))"
  using assms by (auto simp: estimateRepo_def)

text \<open>
  A registry request that fails (a transport error that comes with a response object,
  or a body that does not parse) passes on the product 0 and no document.
\<close>

lemma task_registry_failed:
  assumes "positive q"
    and "(\<exists>e resp. error (registry_get env nm) = Some e
                  \<and> response (registry_get env nm) = Some resp)
         \<or> (error (registry_get env nm) = None
             \<and> (\<exists>raw exn. body (registry_get env nm) = Malformed raw exn))"
  shows "task_registry env nm q = ([RegistryRequest nm], Inr (Finite 0, None))"
  using assms by (auto simp: task_registry_def)

text \<open>
  What holds of the gating. Every task after the repository task runs only under a
  strictly positive running product: handed a product that is not positive, the
  download task, the registry task and the version task send no request and pass the
  product on unchanged. Hence, once the running product is 0 (after the repository
  task, after the download task, or after the registry task), nothing is appended to
  the trace of requests and \<open>estimate\<close> returns exactly 0.
\<close>

lemma short_circuit:
  assumes "name e = Some nm" and "nm \<noteq> []"
  shows "(\<not> positive q \<longrightarrow>
            task_downloads env nm q = ([], Inr q)
            \<and> task_registry env nm q = ([], Inr (q, None))
            \<and> task_versions (q, doc) = ([], Inr q))
       \<and> (estimateRepo env (repository e) = (t1, Inr (Finite 0)) \<longrightarrow>
            estimate env (Some e) = (t1, Inr (Finite 0)))
       \<and> (estimateRepo env (repository e) = (t1, Inr q1)
            \<and> task_downloads env nm q1 = (t2, Inr (Finite 0)) \<longrightarrow>
            estimate env (Some e) = (t1 @ t2, Inr (Finite 0)))
       \<and> (estimateRepo env (repository e) = (t1, Inr q1)
            \<and> task_downloads env nm q1 = (t2, Inr q2)
            \<and> task_registry env nm q2 = (t3, Inr (Finite 0, doc)) \<longrightarrow>
            estimate env (Some e) = (t1 @ t2 @ t3, Inr (Finite 0)))"
proof -
  have zero: "\<not> positive (Finite 0)" by simp
  have gate: "\<not> positive q \<longrightarrow>
            task_downloads env nm q = ([], Inr q)
            \<and> task_registry env nm q = ([], Inr (q, None))
            \<and> task_versions (q, doc) = ([], Inr q)"
    by (simp add: task_downloads_skipped task_registry_skipped task_versions_skipped)
  have repo: "estimate env (Some e) = (t1, Inr (Finite 0))"
    if "estimateRepo env (repository e) = (t1, Inr (Finite 0))"
  proof -
    have d: "task_downloads env nm (Finite 0) = ([], Inr (Finite 0))"
      using zero by (rule task_downloads_skipped)
    have r: "task_registry env nm (Finite 0) = ([], Inr (Finite 0, None))"
      using zero by (rule task_registry_skipped)
    have v: "task_versions (Finite 0, None) = ([], Inr (Finite 0))"
      using zero by (rule task_versions_skipped)
    show ?thesis
      using waterfall_after_registry [OF that d r] v assms by (simp add: estimate_named)
  qed
  have dl: "estimate env (Some e) = (t1 @ t2, Inr (Finite 0))"
    if a: "estimateRepo env (repository e) = (t1, Inr q1)"
      and b: "task_downloads env nm q1 = (t2, Inr (Finite 0))"
  proof -
    have r: "task_registry env nm (Finite 0) = ([], Inr (Finite 0, None))"
      using zero by (rule task_registry_skipped)
    have v: "task_versions (Finite 0, None) = ([], Inr (Finite 0))"
      using zero by (rule task_versions_skipped)
    show ?thesis
      using waterfall_after_registry [OF a b r] v assms by (simp add: estimate_named)
  qed
  have rg: "estimate env (Some e) = (t1 @ t2 @ t3, Inr (Finite 0))"
    if a: "estimateRepo env (repository e) = (t1, Inr q1)"
      and b: "task_downloads env nm q1 = (t2, Inr q2)"
      and c: "task_registry env nm q2 = (t3, Inr (Finite 0, doc))"
  proof -
    have v: "task_versions (Finite 0, doc) = ([], Inr (Finite 0))"
      using zero by (rule task_versions_skipped)
    show ?thesis
      using waterfall_after_registry [OF a b c] v assms by (simp add: estimate_named)
  qed
  from gate repo dl rg show ?thesis by blast
qed

lemma short_circuit_example:
  "\<not> positive (Finite 0)
   \<and> task_downloads (world issues_closed downloads_five registry_two) ''pkg'' (Finite 0)
       = ([], Inr (Finite 0))
   \<and> task_registry (world issues_closed downloads_five registry_two) ''pkg'' (Finite 0)
       = ([], Inr (Finite 0, None))
   \<and> task_versions (Finite 0, Some \<lparr>versions = None\<rparr>) = ([], Inr (Finite 0))
   \<and> estimate (world issues_open downloads_five registry_two) (Some sample_entry)
       = ([IssuesRequest ''owner'' ''repo''], Inr (Finite 0))
   \<and> estimate (world issues_closed downloads_one registry_two) (Some sample_entry)
       = ([IssuesRequest ''owner'' ''repo'', DownloadsRequest ''pkg''], Inr (Finite 0))
   \<and> estimate (world issues_closed downloads_five not_found) (Some sample_entry)
       = ([IssuesRequest ''owner'' ''repo'', DownloadsRequest ''pkg'', RegistryRequest ''pkg''],
          Inr (Finite 0))"
proof -
  have n: "name sample_entry = Some ''pkg''" "''pkg'' \<noteq> []"
    by (simp_all add: sample_entry_def)
  have z: "\<not> positive (Finite 0)" by simp
  have r0: "estimateRepo (world issues_open downloads_five registry_two) (repository sample_entry)
      = ([IssuesRequest ''owner'' ''repo''], Inr (Finite 0))"
    unfolding sample_defs by code_simp
  have r1: "estimateRepo (world issues_closed d g) (repository sample_entry)
      = ([IssuesRequest ''owner'' ''repo''], Inr (Finite 1))" for d g
    by (simp add: sample_defs estimateRepo_def extractRepoInfo_def extractPieces_def
        startsWith_def substringFrom_def substringUpTo_def issues_quality_def)
  have d0: "task_downloads (world issues_closed downloads_one registry_two) ''pkg'' (Finite 1)
      = ([DownloadsRequest ''pkg''], Inr (Finite 0))"
    by (simp add: sample_defs task_downloads_def estimateDownloadsLastYear_def downloads_quality_def)
  have d1: "task_downloads (world issues_closed downloads_five not_found) ''pkg'' (Finite 1)
      = ([DownloadsRequest ''pkg''], Inr (Finite (4/5)))"
    by (simp add: sample_defs task_downloads_def estimateDownloadsLastYear_def downloads_quality_def)
  have g0: "task_registry (world issues_closed downloads_five not_found) ''pkg'' (Finite (4/5))
      = ([RegistryRequest ''pkg''], Inr (Finite 0, None))"
    by (simp add: sample_defs task_registry_def)
  show ?thesis
    using z r0 r1 d0 d1 g0
      short_circuit [OF n, where q = "Finite 0"
        and env = "world issues_closed downloads_five registry_two"
        and doc = "Some \<lparr>versions = None\<rparr>" and ?t1.0 = "[]" and ?q1.0 = "Finite 0"
        and ?t2.0 = "[]" and ?q2.0 = "Finite 0" and ?t3.0 = "[]"]
      short_circuit [OF n, where q = "Finite 0"
        and env = "world issues_open downloads_five registry_two"
        and doc = None and ?t1.0 = "[IssuesRequest ''owner'' ''repo'']"]
      short_circuit [OF n, where q = "Finite 0"
        and env = "world issues_closed downloads_one registry_two"
        and doc = None and ?t1.0 = "[IssuesRequest ''owner'' ''repo'']" and ?q1.0 = "Finite 1"
        and ?t2.0 = "[DownloadsRequest ''pkg'']"]
      short_circuit [OF n, where q = "Finite 0"
        and env = "world issues_closed downloads_five not_found"
        and doc = None and ?t1.0 = "[IssuesRequest ''owner'' ''repo'']" and ?q1.0 = "Finite 1"
        and ?t2.0 = "[DownloadsRequest ''pkg'']" and ?q2.0 = "Finite (4/5)"
        and ?t3.0 = "[RegistryRequest ''pkg'']"]
    by simp
qed

text \<open>
  C2. The claim counts a failed registry fetch among the ways in which the running
  product becomes 0, after which \<open>estimate\<close> returns exactly 0. When the registry
  request ends in a transport error and no response object comes with it, the registry
  task reads \<^verbatim>\<open>response.statusCode\<close> first (line 68) and throws: the run below, with
  positive issue and download scores and a refused registry connection, ends in a
  \<^verbatim>\<open>TypeError\<close> and returns no score.
\<close>

theorem registry_transport_error_absent_response:
  "estimate (world issues_closed downloads_five refused) (Some sample_entry)
   = ([IssuesRequest ''owner'' ''repo'', DownloadsRequest ''pkg'', RegistryRequest ''pkg''],
      Inl TypeError)"
  unfolding sample_defs refused_def by code_simp

section \<open>Unparseable bodies\<close>

text \<open>
  C3. A body of the issue-list request or of the download-series request that does not
  parse ends the whole call with an error message for the callback and no score, while
  a registry body that does not parse sets the running product to 0 and the call
  returns 0 normally. (Each request is one that is sent and that ends without
  transport error: the body is parsed only then.)
\<close>

theorem parse_failures:
  assumes "name e = Some nm" and "nm \<noteq> []"
  shows "(extractRepoInfo (repository e) = Some (Info ow rn)
            \<and> error (issues_get env ow rn) = None
            \<and> body (issues_get env ow rn) = Malformed raw exn \<longrightarrow>
            estimate env (Some e) =
              ([IssuesRequest ow rn],
               Inl (CallbackError (''Invalid issues in '' @ raw @ '': '' @ exn))))
       \<and> (estimateRepo env (repository e) = (t1, Inr q1) \<and> positive q1
            \<and> error (downloads_get env nm) = None
            \<and> body (downloads_get env nm) = Malformed raw exn \<longrightarrow>
            estimate env (Some e) =
              (t1 @ [DownloadsRequest nm],
               Inl (CallbackError (''Could not parse '' @ nm @ '': '' @ exn))))
       \<and> (estimateRepo env (repository e) = (t1, Inr q1)
            \<and> task_downloads env nm q1 = (t2, Inr q2) \<and> positive q2
            \<and> error (registry_get env nm) = None
            \<and> body (registry_get env nm) = Malformed raw exn \<longrightarrow>
            estimate env (Some e) = (t1 @ t2 @ [RegistryRequest nm], Inr (Finite 0)))"
proof -
  have issues: "estimate env (Some e) =
              ([IssuesRequest ow rn],
               Inl (CallbackError (''Invalid issues in '' @ raw @ '': '' @ exn)))"
    if "extractRepoInfo (repository e) = Some (Info ow rn)"
      and "error (issues_get env ow rn) = None"
      and "body (issues_get env ow rn) = Malformed raw exn"
  proof -
    have "estimateRepo env (repository e) =
            ([IssuesRequest ow rn],
             Inl (CallbackError (''Invalid issues in '' @ raw @ '': '' @ exn)))"
      using that by (simp add: estimateRepo_def)
    then show ?thesis
      using assms by (simp add: estimate_named waterfall_def task_repo_def next_task_error)
  qed
  have dl: "estimate env (Some e) =
              (t1 @ [DownloadsRequest nm],
               Inl (CallbackError (''Could not parse '' @ nm @ '': '' @ exn)))"
    if a: "estimateRepo env (repository e) = (t1, Inr q1)" and p: "positive q1"
      and "error (downloads_get env nm) = None"
      and "body (downloads_get env nm) = Malformed raw exn"
  proof -
    have "estimateDownloadsLastYear env nm =
            ([DownloadsRequest nm], Inl (CallbackError (''Could not parse '' @ nm @ '': '' @ exn)))"
      using that by (simp add: estimateDownloadsLastYear_def)
    then have "task_downloads env nm q1 =
            ([DownloadsRequest nm], Inl (CallbackError (''Could not parse '' @ nm @ '': '' @ exn)))"
      using p by (simp add: task_downloads_run)
    then show ?thesis
      using assms by (simp add: estimate_named waterfall_after_repo [OF a] next_task_error)
  qed
  have rg: "estimate env (Some e) = (t1 @ t2 @ [RegistryRequest nm], Inr (Finite 0))"
    if a: "estimateRepo env (repository e) = (t1, Inr q1)"
      and b: "task_downloads env nm q1 = (t2, Inr q2)" and p: "positive q2"
      and "error (registry_get env nm) = None"
      and "body (registry_get env nm) = Malformed raw exn"
  proof -
    have c: "task_registry env nm q2 = ([RegistryRequest nm], Inr (Finite 0, None))"
      using that by (simp add: task_registry_def)
    have v: "task_versions (Finite 0, None) = ([], Inr (Finite 0))"
      by (simp add: task_versions_skipped)
    show ?thesis
      using waterfall_after_registry [OF a b c] v assms by (simp add: estimate_named)
  qed
  from issues dl rg show ?thesis by blast
qed

theorem parse_failures_witness:
  "estimate (world malformed downloads_five registry_two) (Some sample_entry)
     = ([IssuesRequest ''owner'' ''repo''],
        Inl (CallbackError ''Invalid issues in <html>: SyntaxError: Unexpected token <''))
   \<and> estimate (world issues_closed malformed registry_two) (Some sample_entry)
     = ([IssuesRequest ''owner'' ''repo'', DownloadsRequest ''pkg''],
        Inl (CallbackError ''Could not parse pkg: SyntaxError: Unexpected token <''))
   \<and> estimate (world issues_closed downloads_five malformed) (Some sample_entry)
     = ([IssuesRequest ''owner'' ''repo'', DownloadsRequest ''pkg'', RegistryRequest ''pkg''],
        Inr (Finite 0))"
proof -
  have n: "name sample_entry = Some ''pkg''" "''pkg'' \<noteq> []"
    by (simp_all add: sample_entry_def)
  have loc: "extractRepoInfo (repository sample_entry) = Some (Info ''owner'' ''repo'')"
    by (simp add: sample_entry_def extractRepoInfo_def extractPieces_def startsWith_def
        substringFrom_def substringUpTo_def)
  have i: "error (issues_get (world malformed downloads_five registry_two) ''owner'' ''repo'') = None"
    "body (issues_get (world malformed downloads_five registry_two) ''owner'' ''repo'')
       = Malformed ''<html>'' ''SyntaxError: Unexpected token <''"
    by (simp_all add: world_def malformed_def)
  have r1: "estimateRepo (world issues_closed d g) (repository sample_entry)
      = ([IssuesRequest ''owner'' ''repo''], Inr (Finite 1))" for d g
    by (simp add: sample_defs estimateRepo_def extractRepoInfo_def extractPieces_def
        startsWith_def substringFrom_def substringUpTo_def issues_quality_def)
  have p1: "positive (Finite 1)" by simp
  have d: "error (downloads_get (world issues_closed malformed registry_two) ''pkg'') = None"
    "body (downloads_get (world issues_closed malformed registry_two) ''pkg'')
       = Malformed ''<html>'' ''SyntaxError: Unexpected token <''"
    by (simp_all add: world_def malformed_def)
  have d1: "task_downloads (world issues_closed downloads_five malformed) ''pkg'' (Finite 1)
      = ([DownloadsRequest ''pkg''], Inr (Finite (4/5)))"
    by (simp add: sample_defs task_downloads_def estimateDownloadsLastYear_def downloads_quality_def)
  have p2: "positive (Finite (4/5))" by simp
  have g: "error (registry_get (world issues_closed downloads_five malformed) ''pkg'') = None"
    "body (registry_get (world issues_closed downloads_five malformed) ''pkg'')
       = Malformed ''<html>'' ''SyntaxError: Unexpected token <''"
    by (simp_all add: world_def malformed_def)
  show ?thesis
    using loc i r1 p1 d d1 p2 g
      parse_failures [OF n, where env = "world malformed downloads_five registry_two"
        and ow = "''owner''" and rn = "''repo''" and raw = "''<html>''"
        and exn = "''SyntaxError: Unexpected token <''" and ?t1.0 = "[]" and ?q1.0 = "Finite 0"
        and ?t2.0 = "[]" and ?q2.0 = "Finite 0"]
      parse_failures [OF n, where env = "world issues_closed malformed registry_two"
        and ow = "''owner''" and rn = "''repo''" and raw = "''<html>''"
        and exn = "''SyntaxError: Unexpected token <''"
        and ?t1.0 = "[IssuesRequest ''owner'' ''repo'']" and ?q1.0 = "Finite 1"
        and ?t2.0 = "[]" and ?q2.0 = "Finite 0"]
      parse_failures [OF n, where env = "world issues_closed downloads_five malformed"
        and ow = "''owner''" and rn = "''repo''" and raw = "''<html>''"
        and exn = "''SyntaxError: Unexpected token <''"
        and ?t1.0 = "[IssuesRequest ''owner'' ''repo'']" and ?q1.0 = "Finite 1"
        and ?t2.0 = "[DownloadsRequest ''pkg'']" and ?q2.0 = "Finite (4/5)"]
    by simp
qed

section \<open>The issue score\<close>

lemma estimateRepo_fetched:
  assumes "extractRepoInfo r = Some (Info ow nm)"
    and "error (issues_get env ow nm) = None"
    and "body (issues_get env ow nm) = Value issues"
  shows "estimateRepo env r = ([IssuesRequest ow nm], Inr (issues_quality issues))"
  using assms by (simp add: estimateRepo_def)

text \<open>
  C4. For a fetched issue list the issue score is 0 when the list is empty, and
  \<open>1 - open / total\<close> otherwise, where \<open>total\<close> counts every issue of the list
  (whatever its state) and \<open>open\<close> those whose state is \<^verbatim>\<open>open\<close>; a non-empty list
  without open issues scores exactly 1 and a non-empty list of open issues exactly 0.
\<close>

theorem issue_score:
  assumes "extractRepoInfo r = Some (Info ow nm)"
    and "error (issues_get env ow nm) = None"
    and "body (issues_get env ow nm) = Value issues"
  shows "snd (estimateRepo env r) =
           Inr (if length issues = 0 then Finite 0
                else Finite (1 - real (length (filter (\<lambda>i. state i = ''open'') issues))
                                 / real (length issues)))
         \<and> (issues \<noteq> [] \<and> (\<forall>i \<in> set issues. state i \<noteq> ''open'')
              \<longrightarrow> snd (estimateRepo env r) = Inr (Finite 1))
         \<and> (issues \<noteq> [] \<and> (\<forall>i \<in> set issues. state i = ''open'')
              \<longrightarrow> snd (estimateRepo env r) = Inr (Finite 0))"
proof -
  have run: "snd (estimateRepo env r) = Inr (issues_quality issues)"
    using assms by (simp add: estimateRepo_fetched)
  have none: "length (filter (\<lambda>i. state i = ''open'') issues) = 0"
    if "\<forall>i \<in> set issues. state i \<noteq> ''open''"
    using that by (simp add: filter_empty_conv)
  have all: "filter (\<lambda>i. state i = ''open'') issues = issues"
    if "\<forall>i \<in> set issues. state i = ''open''"
    using that by (simp add: filter_id_conv)
  show ?thesis
    unfolding run issues_quality_eq using none all by auto
qed

theorem issue_score_witness:
  "snd (estimateRepo (world (ok [\<lparr>state = ''open''\<rparr>, \<lparr>state = ''open''\<rparr>, \<lparr>state = ''closed''\<rparr>])
          (ok \<lparr>series = None\<rparr>) (ok \<lparr>versions = None\<rparr>)) (repository sample_entry)) = Inr (Finite (1/3))
   \<and> snd (estimateRepo (world (ok [\<lparr>state = ''closed''\<rparr>, \<lparr>state = ''reopened''\<rparr>])
          (ok \<lparr>series = None\<rparr>) (ok \<lparr>versions = None\<rparr>)) (repository sample_entry)) = Inr (Finite 1)
   \<and> snd (estimateRepo (world (ok [\<lparr>state = ''open''\<rparr>, \<lparr>state = ''open''\<rparr>])
          (ok \<lparr>series = None\<rparr>) (ok \<lparr>versions = None\<rparr>)) (repository sample_entry)) = Inr (Finite 0)"
proof -
  have loc: "extractRepoInfo (repository sample_entry) = Some (Info ''owner'' ''repo'')"
    by (simp add: sample_entry_def extractRepoInfo_def extractPieces_def startsWith_def
        substringFrom_def substringUpTo_def)
  have e: "error (issues_get (world (ok is) d g) ''owner'' ''repo'') = None" for "is" d g
    by (simp add: world_def ok_def)
  have b: "body (issues_get (world (ok is) d g) ''owner'' ''repo'') = Value is" for "is" d g
    by (simp add: world_def ok_def)
  show ?thesis
    using issue_score [OF loc e b, of "[\<lparr>state = ''open''\<rparr>, \<lparr>state = ''open''\<rparr>, \<lparr>state = ''closed''\<rparr>]"]
      issue_score [OF loc e b, of "[\<lparr>state = ''closed''\<rparr>, \<lparr>state = ''reopened''\<rparr>]"]
      issue_score [OF loc e b, of "[\<lparr>state = ''open''\<rparr>, \<lparr>state = ''open''\<rparr>]"]
    by simp
qed

section \<open>Ranges of the three scores\<close>




section \<open>The consolidated score\<close>

text \<open>
  The claim fails for a package with a single published version: all three requests
  succeed, the issue score is 1 and the download score \<open>4/5\<close>, yet the version score is
  \<open>1 - 1/1 = 0\<close> and so is the final score, which is not strictly positive.
\<close>

theorem end_to_end_product_counterexample:
  "snd (estimateRepo (world issues_closed downloads_five registry_one) (repository sample_entry))
     = Inr (Finite 1)
   \<and> snd (estimateDownloadsLastYear (world issues_closed downloads_five registry_one) ''pkg'')
     = Inr (Finite (4/5))
   \<and> error (registry_get (world issues_closed downloads_five registry_one) ''pkg'') = None
   \<and> body (registry_get (world issues_closed downloads_five registry_one) ''pkg'')
     = Value \<lparr>versions = Some [(''1.0.0'', ())]\<rparr>
   \<and> snd (estimate (world issues_closed downloads_five registry_one) (Some sample_entry))
     = Inr (Finite 0)"
  unfolding sample_defs by code_simp

text \<open>
  C1, as amended. When the repository task yields a strictly positive issue score, the
  download score is strictly positive, and the registry request succeeds with a
  versions object of at least two versions, \<open>estimate\<close> returns a finite score strictly
  between 0 and 1 that is the product of the issue score, the download score and the
  version score.
\<close>

theorem end_to_end_product:
  assumes "name e = Some nm" and "nm \<noteq> []"
    and "snd (estimateRepo env (repository e)) = Inr qi" and "positive qi"
    and "snd (estimateDownloadsLastYear env nm) = Inr qd" and "positive qd"
    and "error (registry_get env nm) = None" and "body (registry_get env nm) = Value doc"
    and "versions doc = Some obj" and "2 \<le> countProperties obj"
  shows "\<exists>x qv. snd (estimate env (Some e)) = Inr (Finite x) \<and> 0 < x \<and> x < 1
           \<and> snd (estimateVersions (Some obj)) = Inr qv
           \<and> Finite x = num_mul (num_mul qi qd) qv"
proof -
  obtain t1 where repo: "estimateRepo env (repository e) = (t1, Inr qi)"
    using assms(3) by (cases "estimateRepo env (repository e)") simp
  obtain xi where xi: "qi = Finite xi" "0 < xi" "xi \<le> 1"
    using estimateRepo_range [OF assms(3)] assms(4) by auto
  obtain xd where xd: "qd = Finite xd" "0 < xd" "xd < 1"
    using estimateDownloadsLastYear_positive [OF assms(5,6)] by auto
  let ?xv = "1 - 1 / real (countProperties obj)"
  note v = estimateVersions_several [OF assms(10)]
  have vs: "estimateVersions (versions doc) = ([], Inr (Finite ?xv))"
    using v(1) assms(9) by simp
  have run: "estimate env (Some e) =
           (t1 @ [DownloadsRequest nm, RegistryRequest nm], Inr (Finite (xi * xd * ?xv)))"
    using estimate_all_positive [OF assms(1,2) repo [unfolded xi(1)] xi(2)
        assms(5) [unfolded xd(1)] xd(2) assms(7,8) vs] .
  note b = product_in_unit_interval [OF xi(2,3) xd(2,3) v(2,3)]
  show ?thesis
    using run b v(1) xi(1) xd(1) by simp
qed

theorem end_to_end_product_witness:
  "snd (estimateRepo (world issues_half downloads_five registry_two) (repository sample_entry))
     = Inr (Finite (1/2))
   \<and> snd (estimateDownloadsLastYear (world issues_half downloads_five registry_two) ''pkg'')
     = Inr (Finite (4/5))
   \<and> 2 \<le> countProperties [(''1.0.0'', ()), (''1.0.1'', ())]
   \<and> (\<exists>x qv. snd (estimate (world issues_half downloads_five registry_two) (Some sample_entry))
                = Inr (Finite x) \<and> 0 < x \<and> x < 1
         \<and> snd (estimateVersions (Some [(''1.0.0'', ()), (''1.0.1'', ())])) = Inr qv
         \<and> Finite x = num_mul (num_mul (Finite (1/2)) (Finite (4/5))) qv)"
proof -
  let ?w = "world issues_half downloads_five registry_two"
  have n: "name sample_entry = Some ''pkg''" "''pkg'' \<noteq> []"
    by (simp_all add: sample_entry_def)
  have i: "snd (estimateRepo ?w (repository sample_entry)) = Inr (Finite (1/2))"
    by (simp add: sample_defs estimateRepo_def extractRepoInfo_def extractPieces_def
        startsWith_def substringFrom_def substringUpTo_def issues_quality_def)
  have d: "snd (estimateDownloadsLastYear ?w ''pkg'') = Inr (Finite (4/5))"
    by (simp add: sample_defs estimateDownloadsLastYear_def downloads_quality_def)
  have p: "positive (Finite (1/2))" "positive (Finite (4/5))" by simp_all
  have g: "error (registry_get ?w ''pkg'') = None"
    "body (registry_get ?w ''pkg'') = Value \<lparr>versions = Some [(''1.0.0'', ()), (''1.0.1'', ())]\<rparr>"
    by (simp_all add: sample_defs)
  have v: "versions \<lparr>versions = Some [(''1.0.0'', ()), (''1.0.1'', ())]\<rparr>
             = Some [(''1.0.0'', ()), (''1.0.1'', ())]"
    by simp
  have c: "2 \<le> countProperties [(''1.0.0'', ()), (''1.0.1'', ())]"
    by (simp add: countProperties_def)
  from end_to_end_product [OF n i p(1) d p(2) g v c] i d c show ?thesis by blast
qed

section \<open>Monotonicity in the open-issue ratio\<close>

text \<open>
  The claim fails when one of the fixed scores is 0: for a package with a single
  published version the version score is 0, and the run with open-issue ratio \<open>1/2\<close>
  and the run with ratio 0 both end in the consolidated score 0.
\<close>

theorem fewer_open_issues_counterexample:
  "issues_quality [\<lparr>state = ''open''\<rparr>, \<lparr>state = ''closed''\<rparr>] = Finite (1/2)
   \<and> issues_quality [\<lparr>state = ''closed''\<rparr>] = Finite 1
   \<and> snd (estimate (world issues_half downloads_five registry_one) (Some sample_entry))
     = Inr (Finite 0)
   \<and> snd (estimate (world issues_closed downloads_five registry_one) (Some sample_entry))
     = Inr (Finite 0)"
  unfolding sample_defs by code_simp

text \<open>
  C9, as amended. Take two runs on the same entry that differ only in the fetched issue
  list (both lists non-empty, so that the ratio \<open>open / total\<close> is defined), with the
  same download score and the same version score, both strictly positive. If the ratio
  of the second run is strictly lower than that of the first, the consolidated score of
  the second run is strictly greater.
\<close>

theorem fewer_open_issues_score_higher:
  assumes "name e = Some nm" and "nm \<noteq> []"
    and "extractRepoInfo (repository e) = Some (Info ow rn)"
    and "error (issues_get env ow rn) = None"
    and "body (issues_get env ow rn) = Value issues" and "issues \<noteq> []"
    and "error (issues_get env' ow rn) = None"
    and "body (issues_get env' ow rn) = Value issues'" and "issues' \<noteq> []"
    and "downloads_get env' nm = downloads_get env nm"
    and "registry_get env' nm = registry_get env nm"
    and "snd (estimateDownloadsLastYear env nm) = Inr qd" and "positive qd"
    and "error (registry_get env nm) = None" and "body (registry_get env nm) = Value doc"
    and "snd (estimateVersions (versions doc)) = Inr qv" and "positive qv"
    and "real (length (filter (\<lambda>i. state i = ''open'') issues')) / real (length issues')
         < real (length (filter (\<lambda>i. state i = ''open'') issues)) / real (length issues)"
  shows "\<exists>x x'. snd (estimate env (Some e)) = Inr (Finite x)
           \<and> snd (estimate env' (Some e)) = Inr (Finite x') \<and> x < x'"
proof -
  let ?r = "real (length (filter (\<lambda>i. state i = ''open'') issues)) / real (length issues)"
  let ?r' = "real (length (filter (\<lambda>i. state i = ''open'') issues')) / real (length issues')"
  have repo: "estimateRepo env (repository e) = ([IssuesRequest ow rn], Inr (Finite (1 - ?r)))"
    using assms(3-6) by (simp add: estimateRepo_def issues_quality_eq)
  have repo': "estimateRepo env' (repository e) = ([IssuesRequest ow rn], Inr (Finite (1 - ?r')))"
    using assms(3,7-9) by (simp add: estimateRepo_def issues_quality_eq)
  have r1: "?r \<le> 1" using assms(6) by (simp add: divide_le_eq)
  have lt: "1 - ?r < 1 - ?r'" using assms(18) by simp
  have pos': "0 < 1 - ?r'" using r1 assms(18) by linarith
  have nonneg: "0 \<le> 1 - ?r" using r1 by simp
  obtain xd where xd: "qd = Finite xd" "0 < xd"
    using estimateDownloadsLastYear_positive [OF assms(12,13)] by auto
  obtain xv where xv: "qv = Finite xv" "0 < xv"
    using estimateVersions_positive [OF assms(16,17)] by auto
  have vs: "estimateVersions (versions doc) = ([], Inr (Finite xv))"
    using assms(16) xv(1) fst_estimateVersions [of "versions doc"]
    by (cases "estimateVersions (versions doc)") simp
  have dl: "snd (estimateDownloadsLastYear env nm) = Inr (Finite xd)"
    using assms(12) xd(1) by simp
  have dl': "snd (estimateDownloadsLastYear env' nm) = Inr (Finite xd)"
    using dl estimateDownloadsLastYear_cong [OF assms(10)] by simp
  have rg': "error (registry_get env' nm) = None" "body (registry_get env' nm) = Value doc"
    using assms(11,14,15) by simp_all
  have run': "snd (estimate env' (Some e)) = Inr (Finite ((1 - ?r') * xd * xv))"
    using estimate_all_positive [OF assms(1,2) repo' pos' dl' xd(2) rg' vs] by simp
  have scale: "0 < xd * xv" using xd(2) xv(2) by simp
  have target: "0 < (1 - ?r') * xd * xv" using pos' xd(2) xv(2) by simp
  show ?thesis
  proof (cases "0 < 1 - ?r")
    case True
    have run: "snd (estimate env (Some e)) = Inr (Finite ((1 - ?r) * xd * xv))"
      using estimate_all_positive [OF assms(1,2) repo True dl xd(2) assms(14,15) vs] by simp
    have "(1 - ?r) * (xd * xv) < (1 - ?r') * (xd * xv)"
      using lt scale by (rule mult_strict_right_mono)
    then have "(1 - ?r) * xd * xv < (1 - ?r') * xd * xv" by (simp add: mult.assoc)
    with run run' show ?thesis by blast
  next
    case False
    with nonneg have z: "1 - ?r = 0" by linarith
    have "estimateRepo env (repository e) = ([IssuesRequest ow rn], Inr (Finite 0))"
      using repo z by simp
    then have run: "snd (estimate env (Some e)) = Inr (Finite 0)"
      using short_circuit_repo [OF assms(1,2)] by simp
    with run' target show ?thesis by blast
  qed
qed

theorem fewer_open_issues_score_higher_witness:
  "real (length (filter (\<lambda>i. state i = ''open'') [\<lparr>state = ''closed''\<rparr>]))
       / real (length [\<lparr>state = ''closed''\<rparr>])
     < real (length (filter (\<lambda>i. state i = ''open'') [\<lparr>state = ''open''\<rparr>, \<lparr>state = ''closed''\<rparr>]))
       / real (length [\<lparr>state = ''open''\<rparr>, \<lparr>state = ''closed''\<rparr>])
   \<and> snd (estimateDownloadsLastYear (world issues_half downloads_five registry_two) ''pkg'')
     = Inr (Finite (4/5))
   \<and> snd (estimateVersions (Some [(''1.0.0'', ()), (''1.0.1'', ())])) = Inr (Finite (1/2))
   \<and> (\<exists>x x'. snd (estimate (world issues_half downloads_five registry_two) (Some sample_entry))
                 = Inr (Finite x)
         \<and> snd (estimate (world issues_closed downloads_five registry_two) (Some sample_entry))
                 = Inr (Finite x')
         \<and> x < x')"
proof -
  let ?w = "world issues_half downloads_five registry_two"
  let ?w' = "world issues_closed downloads_five registry_two"
  let ?doc = "\<lparr>versions = Some [(''1.0.0'', ()), (''1.0.1'', ())]\<rparr>"
  have i: "error (issues_get ?w ''owner'' ''repo'') = None"
    "body (issues_get ?w ''owner'' ''repo'') = Value [\<lparr>state = ''open''\<rparr>, \<lparr>state = ''closed''\<rparr>]"
    "[\<lparr>state = ''open''\<rparr>, \<lparr>state = ''closed''\<rparr>] \<noteq> []"
    by (simp_all add: sample_defs)
  have i': "error (issues_get ?w' ''owner'' ''repo'') = None"
    "body (issues_get ?w' ''owner'' ''repo'') = Value [\<lparr>state = ''closed''\<rparr>]"
    "[\<lparr>state = ''closed''\<rparr>] \<noteq> []"
    by (simp_all add: sample_defs)
  have same: "downloads_get ?w' ''pkg'' = downloads_get ?w ''pkg''"
    "registry_get ?w' ''pkg'' = registry_get ?w ''pkg''"
    by (simp_all add: world_def)
  have d: "snd (estimateDownloadsLastYear ?w ''pkg'') = Inr (Finite (4/5))"
    by (simp add: sample_defs estimateDownloadsLastYear_def downloads_quality_def)
  have g: "error (registry_get ?w ''pkg'') = None" "body (registry_get ?w ''pkg'') = Value ?doc"
    by (simp_all add: sample_defs)
  have v: "snd (estimateVersions (versions ?doc)) = Inr (Finite (1/2))"
    by (simp add: estimateVersions_def countProperties_def)
  have p: "positive (Finite (4/5))" "positive (Finite (1/2))" by simp_all
  have ratio: "real (length (filter (\<lambda>i. state i = ''open'') [\<lparr>state = ''closed''\<rparr>]))
       / real (length [\<lparr>state = ''closed''\<rparr>])
     < real (length (filter (\<lambda>i. state i = ''open'') [\<lparr>state = ''open''\<rparr>, \<lparr>state = ''closed''\<rparr>]))
       / real (length [\<lparr>state = ''open''\<rparr>, \<lparr>state = ''closed''\<rparr>])"
    by simp
  from fewer_open_issues_score_higher
    [OF sample_named sample_located i i' same d p(1) g v p(2) ratio] ratio d v
  show ?thesis by simp
qed

section \<open>Transport errors of the download series\<close>

text \<open>
  When the request ends in a transport error and a response object came with it, the
  scorer yields 0 (on status 404 and on any other status alike).
\<close>

lemma downloads_transport_error_with_response:
  assumes "error (downloads_get env nm) = Some e"
    and "response (downloads_get env nm) = Some resp"
  shows "estimateDownloadsLastYear env nm = ([DownloadsRequest nm], Inr (Finite 0))"
  using assms by (simp add: estimateDownloadsLastYear_def)

text \<open>
  C8. The claim is that a transport error of the download-series request yields score 0
  whatever response accompanies it, an absent response included. The scorer reads
  \<^verbatim>\<open>response.statusCode\<close> before anything else in its error branch, so with an absent
  response it throws instead: the run below ends in a \<^verbatim>\<open>TypeError\<close>, not in a score.
\<close>

theorem downloads_transport_error_absent_response:
  "estimateDownloadsLastYear
     (world (ok []) \<lparr>error = Some ''ECONNREFUSED'', response = None, body = Null\<rparr>
        (ok \<lparr>versions = None\<rparr>))
     ''pkg'' = ([DownloadsRequest ''pkg''], Inl TypeError)"
  by (simp add: estimateDownloadsLastYear_def world_def)

section \<open>The locator\<close>

text \<open>
  What does hold of the \<^verbatim>\<open>git@github.com:\<close> branch: the prefix is stripped, the rest
  must split into exactly two pieces, and the documented example comes out as expected.
\<close>

lemma substringFrom_prefix:
  assumes "startsWith u str" and "u \<noteq> []"
  shows "substringFrom u str = drop (length str) u"
  using assms by (cases u) (simp_all add: substringFrom_def)

lemma locator_ssh_branch:
  assumes "startsWith u ''git@github.com:''"
  shows "extractRepoInfo (Some \<lparr>type = Some ''git'', url = Some u\<rparr>)
           = Some (extractPieces (drop (length ''git@github.com:'') u) 0)"
proof -
  have "u \<noteq> []" using assms by (auto simp: startsWith_def)
  with assms have "substringFrom u ''git@github.com:'' = drop (length ''git@github.com:'') u"
    by (rule substringFrom_prefix)
  with assms \<open>u \<noteq> []\<close> show ?thesis
    by (simp add: extractRepoInfo_def)
qed

lemma extractPieces_wrong_count:
  assumes "length (split remaining CHR ''/'') \<noteq> initial + 2"
  shows "extractPieces remaining initial = EmptyObject"
  using assms by (simp add: extractPieces_def)

lemma substringUpTo_absent:
  assumes "indexOf s str = None"
  shows "substringUpTo s str = s"
  using assms by (simp add: substringUpTo_def)

lemma locator_example:
  "extractRepoInfo (Some \<lparr>type = Some ''git'', url = Some ''git@github.com:owner/repo.git''\<rparr>)
     = Some (Info ''owner'' ''repo'')
   \<and> extractRepoInfo (Some \<lparr>type = Some ''svn'', url = Some ''git@github.com:owner/repo.git''\<rparr>)
     = None
   \<and> extractRepoInfo (Some \<lparr>type = Some ''git'', url = Some ''git@github.com:owner/a/b''\<rparr>)
     = Some EmptyObject"
  by (simp add: extractRepoInfo_def extractPieces_def startsWith_def substringFrom_def
      substringUpTo_def)

text \<open>
  C6. The claim is that the locator removes a trailing \<^verbatim>\<open>.git\<close> from the name and
  leaves any other name unchanged. \<^verbatim>\<open>substringUpTo('.git')\<close> cuts the name at the
  first occurrence of \<^verbatim>\<open>.git\<close>, wherever it is: the name \<^verbatim>\<open>owner.github.io\<close>, which
  has no such suffix, comes out as \<^verbatim>\<open>owner\<close>.
\<close>

theorem locator_cuts_at_first_dot_git:
  "extractRepoInfo
     (Some \<lparr>type = Some ''git'', url = Some ''git@github.com:owner/owner.github.io''\<rparr>)
   = Some (Info ''owner'' ''owner'')"
  by (simp add: extractRepoInfo_def extractPieces_def startsWith_def substringFrom_def
      substringUpTo_def)

section \<open>The registry response in the version task\<close>

text \<open>
  C10. The claim is that the version task never faults, because a positive running
  product always comes with a non-null registry response. A registry body that is the
  JSON text \<^verbatim>\<open>null\<close> parses without exception, so the registry task passes
  \<^verbatim>\<open>null\<close> on together with the positive product, and the version task throws on
  \<^verbatim>\<open>registryResponse.versions\<close>.
\<close>

theorem versions_task_null_registry:
  "estimate
     (world (ok [\<lparr>state = ''closed''\<rparr>]) (ok \<lparr>series = Some [\<lparr>downloads = 2\<rparr>]\<rparr>)
        \<lparr>error = None, response = Some \<lparr>statusCode = 200\<rparr>, body = Null\<rparr>)
     (Some sample_entry)
   = ([IssuesRequest ''owner'' ''repo'', DownloadsRequest ''pkg'', RegistryRequest ''pkg''],
      Inl TypeError)"
  by code_simp

end
